theory Spec2Isabelle
  imports Complex_Main
begin

section \<open>The trading agent of agent-client.js\<close>

text \<open>
  The class \<open>TradingAgent\<close> keeps a daily budget (\<open>maxDailySpend\<close>), the amount spent so
  far (\<open>spendingToday\<close>) and a ledger of attempted paid calls (\<open>transactions\<close>). Every
  paid call goes through \<open>executePayment\<close>; the workflows \<open>analyzeMarketAndDecide\<close>,
  \<open>analyzeBatch\<close> and \<open>smartAnalysis\<close> chain such calls.

  Modelling decisions:
  \<^item> A JavaScript number is a \<open>jsnum\<close>: a finite binary64 value, given by the real number
    it denotes, or \<open>NaN\<close>, or an infinity. Sums, differences, products and quotients are
    rounded to the nearest binary64 value, a tie going to the even significand, as
    IEEE 754 prescribes; a decimal literal of the source denotes the binary64 value
    nearest to it. The sign of zero is not modelled.
  \<^item> The x402 client is the environment: an oracle gives, for the n-th invocation of the
    client, either a response or a failure message. The agent carries a ghost counter
    \<open>invocations\<close> of the client calls made so far, which the source does not have.
    Responses are typed per service; malformed response shapes are not modelled.
  \<^item> An exception is a value \<open>Inl e\<close>; a function that can throw returns its result
    together with the agent state it leaves behind.
  \<^item> The timestamp and duration of a ledger entry are written and never read; they are
    left out of \<open>transaction\<close>. The clock read by \<open>getSpendingReport\<close> is a parameter.
  \<^item> Logging has no effect on the state and is left out.
\<close>

subsection \<open>Numbers\<close>

datatype jsnum = Fin real | NaN | PosInf | NegInf

text \<open>The nearest integer, a tie going to the even one.\<close>

definition half_even :: "real \<Rightarrow> int" where
  "half_even y =
     (let f = \<lfloor>y\<rfloor>; r = y - of_int f
      in if r < 1 / 2 then f else if 1 / 2 < r then f + 1
         else if even f then f else f + 1)"

text \<open>A positive real \<open>x\<close> is brought to the form \<open>y * 2 ^ e\<close> with \<open>y\<close> between \<open>2 ^ 52\<close>
  and \<open>2 ^ 53\<close>, the range of a 53-bit significand, by halving or doubling; doubling
  stops at the least exponent of binary64, where the values are subnormal.\<close>

function scale_down :: "real \<Rightarrow> int \<Rightarrow> real \<times> int" where
  "scale_down y e = (if 2 ^ 53 \<le> y then scale_down (y / 2) (e + 1) else (y, e))"
  by pat_completeness auto
termination
proof (relation "measure (\<lambda>(y, e). nat \<lfloor>y\<rfloor>)")
  show "wf (measure (\<lambda>(y, e). nat \<lfloor>y\<rfloor>))" by simp
next
  fix y :: real and e :: int
  assume big: "2 ^ 53 \<le> y"
  have "y / 2 \<le> y - 1" using big by simp
  then have "\<lfloor>y / 2\<rfloor> \<le> \<lfloor>y - 1\<rfloor>" by (rule floor_mono)
  then have "\<lfloor>y / 2\<rfloor> < \<lfloor>y\<rfloor>" by simp
  moreover have "0 < \<lfloor>y\<rfloor>" using big by simp
  ultimately show "((y / 2, e + 1), (y, e)) \<in> measure (\<lambda>(y, e). nat \<lfloor>y\<rfloor>)"
    by simp
qed

function scale_up :: "real \<Rightarrow> int \<Rightarrow> real \<times> int" where
  "scale_up y e = (if y < 2 ^ 52 \<and> - 1074 < e then scale_up (2 * y) (e - 1) else (y, e))"
  by pat_completeness auto
termination
  by (relation "measure (\<lambda>(y, e). nat (e + 1074))") auto

declare scale_down.simps [simp del] scale_up.simps [simp del]

definition pow2 :: "int \<Rightarrow> real" where
  "pow2 e = (if 0 \<le> e then 2 ^ nat e else 1 / 2 ^ nat (- e))"

text \<open>Rounding of a real to binary64: to the nearest value, a tie to the even
  significand; a result of magnitude \<open>2 ^ 1024\<close> overflows to an infinity.\<close>

definition round64 :: "real \<Rightarrow> jsnum" where
  "round64 x =
     (if x = 0 then Fin 0
      else (case (if 2 ^ 53 \<le> \<bar>x\<bar> then scale_down \<bar>x\<bar> 0 else scale_up \<bar>x\<bar> 0) of
              (y, e) \<Rightarrow>
                (let v = of_int (half_even y) * pow2 e
                 in if 2 ^ 1024 \<le> v then (if 0 < x then PosInf else NegInf)
                    else Fin (if 0 < x then v else - v))))"

text \<open>A numeric literal of the source.\<close>

definition lit :: "real \<Rightarrow> jsnum" where
  "lit q = round64 q"

fun js_neg :: "jsnum \<Rightarrow> jsnum" where
  "js_neg (Fin x) = Fin (- x)"
| "js_neg NaN = NaN"
| "js_neg PosInf = NegInf"
| "js_neg NegInf = PosInf"

fun js_add :: "jsnum \<Rightarrow> jsnum \<Rightarrow> jsnum" where
  "js_add (Fin x) (Fin y) = round64 (x + y)"
| "js_add NaN b = NaN"
| "js_add a NaN = NaN"
| "js_add PosInf NegInf = NaN"
| "js_add NegInf PosInf = NaN"
| "js_add PosInf b = PosInf"
| "js_add a PosInf = PosInf"
| "js_add NegInf b = NegInf"
| "js_add a NegInf = NegInf"

definition js_sub :: "jsnum \<Rightarrow> jsnum \<Rightarrow> jsnum" where
  "js_sub a b = js_add a (js_neg b)"

text \<open>The sign of a number: 1, 0 (also for \<open>NaN\<close>) or -1.\<close>

fun js_sign :: "jsnum \<Rightarrow> int" where
  "js_sign (Fin x) = (if 0 < x then 1 else if x < 0 then - 1 else 0)"
| "js_sign NaN = 0"
| "js_sign PosInf = 1"
| "js_sign NegInf = - 1"

definition signed_inf :: "int \<Rightarrow> jsnum" where
  "signed_inf s = (if s = 0 then NaN else if 0 < s then PosInf else NegInf)"

fun js_mul :: "jsnum \<Rightarrow> jsnum \<Rightarrow> jsnum" where
  "js_mul (Fin x) (Fin y) = round64 (x * y)"
| "js_mul NaN b = NaN"
| "js_mul a NaN = NaN"
| "js_mul a b = signed_inf (js_sign a * js_sign b)"

text \<open>Division; a zero divisor is taken as positive zero.\<close>

fun js_div :: "jsnum \<Rightarrow> jsnum \<Rightarrow> jsnum" where
  "js_div (Fin x) (Fin y) =
     (if y = 0 then signed_inf (js_sign (Fin x)) else round64 (x / y))"
| "js_div NaN b = NaN"
| "js_div a NaN = NaN"
| "js_div (Fin x) b = Fin 0"
| "js_div a (Fin y) = signed_inf (js_sign a * (if y < 0 then - 1 else 1))"
| "js_div a b = NaN"

text \<open>Comparisons; every comparison with \<open>NaN\<close> is false.\<close>

fun js_less :: "jsnum \<Rightarrow> jsnum \<Rightarrow> bool" where
  "js_less (Fin x) (Fin y) = (x < y)"
| "js_less NaN b = False"
| "js_less a NaN = False"
| "js_less PosInf b = False"
| "js_less a NegInf = False"
| "js_less a b = True"

fun js_le :: "jsnum \<Rightarrow> jsnum \<Rightarrow> bool" where
  "js_le (Fin x) (Fin y) = (x \<le> y)"
| "js_le NaN b = False"
| "js_le a NaN = False"
| "js_le NegInf b = True"
| "js_le a PosInf = True"
| "js_le a b = False"

definition js_gt :: "jsnum \<Rightarrow> jsnum \<Rightarrow> bool" where
  "js_gt a b = js_less b a"

definition js_ge :: "jsnum \<Rightarrow> jsnum \<Rightarrow> bool" where
  "js_ge a b = js_le b a"

subsection \<open>Data\<close>

datatype status = Success | Failed

record transaction =
  endpoint :: string
  amount :: jsnum
  status :: status
  requestId :: "string option"
  error :: "string option"

record agent =
  name :: string
  wallet :: string
  maxDailySpend :: jsnum
  spendingToday :: jsnum
  transactions :: "transaction list"
  invocations :: nat

text \<open>What one invocation of the x402 client produces: a response, with the optional
  \<open>x-request-id\<close> header and the body, or a thrown error with its message.\<close>

datatype 'r outcome = Response "string option" 'r | Failure string

datatype failure = InsufficientBudget jsnum | TransportError string | TypeError string

text \<open>The bodies the three services return, with the fields the agent reads:
  \<open>data.price\<close>, \<open>data.signals.trend\<close>, \<open>data.signals.strength\<close>,
  \<open>data.signals.volatility\<close>, \<open>data.volume\<close>; \<open>data.sentiment\<close>, \<open>data.score\<close>;
  \<open>data.currentPrice\<close>, \<open>data.predictedPrice\<close>, \<open>data.change\<close>, \<open>_meta.confidence\<close>.\<close>

record market_data =
  price :: jsnum
  trend :: string
  strength :: jsnum
  volatility :: jsnum
  volume :: jsnum

record sentiment_data =
  sentiment :: string
  score :: jsnum

record prediction_data =
  currentPrice :: jsnum
  predictedPrice :: jsnum
  change :: jsnum
  meta_confidence :: jsnum

record env =
  market_api :: "nat \<Rightarrow> market_data outcome"
  sentiment_api :: "nat \<Rightarrow> sentiment_data outcome"
  prediction_api :: "nat \<Rightarrow> prediction_data outcome"

datatype decision = BUY | SELL | HOLD | PASS | SKIP | ERROR

text \<open>The object a workflow returns; a field the source leaves out is \<open>None\<close>.\<close>

record result =
  symbol :: "string option"
  decision :: decision
  reason :: "string option"
  confidence :: "jsnum option"
  totalSpent :: "jsnum option"
  thrown :: "failure option"
  analysis :: "(market_data \<times> sentiment_data \<times> prediction_data) option"

subsection \<open>Construction\<close>

text \<open>\<open>config.name || 'TradingAgent-1'\<close> and \<open>config.maxDailySpend || 10.0\<close>: a missing
  value, the empty string, the number 0 and \<open>NaN\<close> are falsy and give the default.\<close>

definition TradingAgent :: "string option \<Rightarrow> string \<Rightarrow> jsnum option \<Rightarrow> agent" where
  "TradingAgent cfgName address cfgMax =
     \<lparr> name = (case cfgName of None \<Rightarrow> ''TradingAgent-1''
               | Some n \<Rightarrow> if n = [] then ''TradingAgent-1'' else n),
       wallet = address,
       maxDailySpend = (case cfgMax of None \<Rightarrow> lit 10
               | Some m \<Rightarrow> if m = Fin 0 \<or> m = NaN then lit 10 else m),
       spendingToday = Fin 0,
       transactions = [],
       invocations = 0 \<rparr>"

subsection \<open>The budget gate and the paid call\<close>

definition canAfford :: "agent \<Rightarrow> jsnum \<Rightarrow> bool" where
  "canAfford a amt =
     (let remaining = js_sub (maxDailySpend a) (spendingToday a) in js_ge remaining amt)"

text \<open>\<open>executePayment client endpoint amount method a\<close>. With a method other than GET and
  POST the source calls nothing, \<open>response\<close> stays undefined and reading
  \<open>response.headers\<close> throws inside the \<open>try\<close>, so the \<open>catch\<close> records a failed entry;
  the message of that error is the engine's, for which a fixed text stands here.\<close>

definition executePayment ::
  "(nat \<Rightarrow> 'r outcome) \<Rightarrow> string \<Rightarrow> jsnum \<Rightarrow> string \<Rightarrow> agent \<Rightarrow> (failure + 'r) \<times> agent" where
  "executePayment client ep amt method a =
     (if \<not> canAfford a amt
      then (Inl (InsufficientBudget (js_sub (maxDailySpend a) (spendingToday a))), a)
      else if method = ''GET'' \<or> method = ''POST''
      then (case client (invocations a) of
              Response rid body \<Rightarrow>
                (Inr body,
                 a\<lparr> transactions := transactions a @
                       [\<lparr> endpoint = ep, amount = amt, status = Success,
                          requestId = rid, error = None \<rparr>],
                    spendingToday := js_add (spendingToday a) amt,
                    invocations := Suc (invocations a) \<rparr>)
            | Failure msg \<Rightarrow>
                (Inl (TransportError msg),
                 a\<lparr> transactions := transactions a @
                       [\<lparr> endpoint = ep, amount = amt, status = Failed,
                          requestId = None, error = Some msg \<rparr>],
                    invocations := Suc (invocations a) \<rparr>))
      else (Inl (TypeError ''response is undefined''),
            a\<lparr> transactions := transactions a @
                  [\<lparr> endpoint = ep, amount = amt, status = Failed,
                     requestId = None, error = Some ''response is undefined'' \<rparr>] \<rparr>))"

subsection \<open>The decision\<close>

text \<open>\<open>makeDecision(marketData, sentiment, prediction)\<close>. The conjunction is evaluated left
  to right and stops at the first false operand; \<open>sentiment.data\<close> is read only when the
  first two operands are true, and throws when \<open>sentiment\<close> is \<open>null\<close> (here \<open>None\<close>).\<close>

definition makeDecision ::
  "market_data \<Rightarrow> sentiment_data option \<Rightarrow> prediction_data \<Rightarrow> failure + decision" where
  "makeDecision marketData sent prediction =
     (let priceChange = change prediction;
          conf = meta_confidence prediction
      in if js_gt priceChange (lit 5) \<and> js_gt conf (lit 0.7)
         then (case sent of
                 None \<Rightarrow> Inl (TypeError ''sentiment is null'')
               | Some s \<Rightarrow>
                   if sentiment s = ''positive'' then Inr BUY
                   else if js_less priceChange (js_neg (lit 5)) \<and> js_gt conf (lit 0.7)
                   then Inr SELL
                   else Inr HOLD)
         else if js_less priceChange (js_neg (lit 5)) \<and> js_gt conf (lit 0.7) then Inr SELL
         else Inr HOLD)"

subsection \<open>Deep analysis\<close>

definition market_url :: "string \<Rightarrow> string" where
  "market_url symb = ''/api/v1/data/market-intelligence?symbol='' @ symb"

definition sentiment_url :: string where
  "sentiment_url = ''/api/v1/models/sentiment-analysis''"

definition prediction_url :: string where
  "prediction_url = ''/api/v1/models/price-prediction''"

definition hold_early :: "string \<Rightarrow> result" where
  "hold_early symb =
     \<lparr> symbol = Some symb, decision = HOLD,
       reason = Some ''Signal not strong enough for deep analysis'',
       confidence = None, totalSpent = Some (lit 0.005), thrown = None, analysis = None \<rparr>"

definition analyzeMarketAndDecide :: "env \<Rightarrow> string \<Rightarrow> agent \<Rightarrow> (failure + result) \<times> agent" where
  "analyzeMarketAndDecide e symb a =
     (case executePayment (market_api e) (market_url symb) (lit 0.005) ''GET'' a of
        (Inl err, a1) \<Rightarrow> (Inl err, a1)
      | (Inr marketData, a1) \<Rightarrow>
          if js_gt (strength marketData) (lit 0.7)
          then (case executePayment (sentiment_api e) sentiment_url (lit 0.02) ''POST'' a1 of
                  (Inl err, a2) \<Rightarrow> (Inl err, a2)
                | (Inr sent, a2) \<Rightarrow>
                    if sentiment sent = ''positive'' \<and> trend marketData = ''bullish''
                    then (case executePayment (prediction_api e) prediction_url (lit 0.10)
                                 ''POST'' a2 of
                            (Inl err, a3) \<Rightarrow> (Inl err, a3)
                          | (Inr prediction, a3) \<Rightarrow>
                              (case makeDecision marketData (Some sent) prediction of
                                 Inl err \<Rightarrow> (Inl err, a3)
                               | Inr d \<Rightarrow>
                                   (Inr \<lparr> symbol = Some symb, decision = d, reason = None,
                                          confidence = Some (meta_confidence prediction),
                                          totalSpent =
                                            Some (js_add (js_add (lit 0.005) (lit 0.02))
                                                         (lit 0.10)),
                                          thrown = None,
                                          analysis = Some (marketData, sent, prediction) \<rparr>,
                                    a3)))
                    else (Inr (hold_early symb), a2))
          else (Inr (hold_early symb), a1))"

subsection \<open>Batch analysis\<close>

definition skip_entry :: "string \<Rightarrow> result" where
  "skip_entry symb =
     \<lparr> symbol = Some symb, decision = SKIP, reason = Some ''Weak signals'',
       confidence = None, totalSpent = Some (lit 0.005), thrown = None, analysis = None \<rparr>"

definition error_entry :: "string \<Rightarrow> failure \<Rightarrow> result" where
  "error_entry symb err =
     \<lparr> symbol = Some symb, decision = ERROR, reason = None,
       confidence = None, totalSpent = Some (lit 0), thrown = Some err, analysis = None \<rparr>"

text \<open>The \<open>for\<close> loop of \<open>analyzeBatch\<close>, with the list of results built so far. The budget
  check sits at the end of the \<open>try\<close> block: it runs after an entry was pushed there, and
  not after the \<open>catch\<close> pushed an ERROR entry.\<close>

fun batch_loop :: "env \<Rightarrow> string list \<Rightarrow> result list \<Rightarrow> agent \<Rightarrow> result list \<times> agent" where
  "batch_loop e [] results a = (results, a)"
| "batch_loop e (symb # rest) results a =
     (case executePayment (market_api e) (market_url symb) (lit 0.005) ''GET'' a of
        (Inl err, a1) \<Rightarrow> batch_loop e rest (results @ [error_entry symb err]) a1
      | (Inr marketData, a1) \<Rightarrow>
          if js_gt (strength marketData) (lit 0.8)
          then (case analyzeMarketAndDecide e symb a1 of
                  (Inl err, a2) \<Rightarrow> batch_loop e rest (results @ [error_entry symb err]) a2
                | (Inr fullAnalysis, a2) \<Rightarrow>
                    if js_ge (spendingToday a2) (js_mul (maxDailySpend a2) (lit 0.9))
                    then (results @ [fullAnalysis], a2)
                    else batch_loop e rest (results @ [fullAnalysis]) a2)
          else if js_ge (spendingToday a1) (js_mul (maxDailySpend a1) (lit 0.9))
               then (results @ [skip_entry symb], a1)
               else batch_loop e rest (results @ [skip_entry symb]) a1)"

definition analyzeBatch :: "env \<Rightarrow> string list \<Rightarrow> agent \<Rightarrow> result list \<times> agent" where
  "analyzeBatch e symbols a = batch_loop e symbols [] a"

subsection \<open>Smart analysis\<close>

definition smartAnalysis :: "env \<Rightarrow> string \<Rightarrow> agent \<Rightarrow> (failure + result) \<times> agent" where
  "smartAnalysis e symb a =
     (case executePayment (market_api e) (market_url symb) (lit 0.005) ''GET'' a of
        (Inl err, a1) \<Rightarrow> (Inl err, a1)
      | (Inr marketData, a1) \<Rightarrow>
          (let signalStrength = strength marketData in
           if js_less signalStrength (lit 0.5)
           then (Inr \<lparr> symbol = None, decision = PASS,
                       reason = Some ''Weak signal, not worth deeper analysis'',
                       confidence = None, totalSpent = None, thrown = None,
                       analysis = None \<rparr>, a1)
           else if js_less signalStrength (lit 0.8)
           then (case executePayment (sentiment_api e) sentiment_url (lit 0.02) ''POST'' a1 of
                   (Inl err, a2) \<Rightarrow> (Inl err, a2)
                 | (Inr sent, a2) \<Rightarrow>
                     if sentiment sent = trend marketData
                     then (case executePayment (prediction_api e) prediction_url (lit 0.10)
                                  ''POST'' a2 of
                             (Inl err, a3) \<Rightarrow> (Inl err, a3)
                           | (Inr prediction, a3) \<Rightarrow>
                               (case makeDecision marketData (Some sent) prediction of
                                  Inl err \<Rightarrow> (Inl err, a3)
                                | Inr d \<Rightarrow>
                                    (Inr \<lparr> symbol = None, decision = d, reason = None,
                                           confidence = None,
                                           totalSpent =
                                             Some (js_add (js_add (lit 0.005) (lit 0.02))
                                                          (lit 0.10)),
                                           thrown = None, analysis = None \<rparr>, a3)))
                     else (Inr \<lparr> symbol = None, decision = HOLD,
                                 reason = Some ''Sentiment does not confirm signal'',
                                 confidence = None,
                                 totalSpent = Some (js_add (lit 0.005) (lit 0.02)),
                                 thrown = None, analysis = None \<rparr>, a2))
           else (case executePayment (prediction_api e) prediction_url (lit 0.10) ''POST'' a1 of
                   (Inl err, a2) \<Rightarrow> (Inl err, a2)
                 | (Inr prediction, a2) \<Rightarrow>
                     (case makeDecision marketData None prediction of
                        Inl err \<Rightarrow> (Inl err, a2)
                      | Inr d \<Rightarrow>
                          (Inr \<lparr> symbol = None, decision = d, reason = None,
                                 confidence = None,
                                 totalSpent = Some (js_add (lit 0.005) (lit 0.10)),
                                 thrown = None, analysis = None \<rparr>, a2)))))"

subsection \<open>The spending report\<close>

text \<open>\<open>toFixed(1)\<close> prints the multiple of one tenth nearest to the value of the number,
  a tie going away from zero; the special values print as themselves. The result here
  is the number printed, and the percent sign the report appends is left out.\<close>

definition toFixed1 :: "jsnum \<Rightarrow> jsnum" where
  "toFixed1 x =
     (case x of
        Fin r \<Rightarrow> (if r < 0 then Fin (- (of_int \<lfloor>- r * 10 + 1 / 2\<rfloor> / 10))
                  else Fin (of_int \<lfloor>r * 10 + 1 / 2\<rfloor> / 10))
      | other \<Rightarrow> other)"

record endpoint_group =
  count :: nat
  totalCost :: jsnum

text \<open>\<open>groupByEndpoint\<close> fills a plain object, modelled as the list of its own properties
  in the order in which they are enumerated: the keys that are array indices first, by
  value, then the other keys in the order of their insertion.

  A plain object inherits the members of \<open>Object.prototype\<close>. For an endpoint with the
  name of such a member, \<open>grouped[t.endpoint]\<close> reads the inherited member, which is
  truthy: no group is created, and the two updates go to the inherited member.\<close>

definition inherited :: "string \<Rightarrow> bool" where
  "inherited k =
     (k \<in> set [''constructor'', ''__proto__'', ''hasOwnProperty'', ''isPrototypeOf'',
               ''propertyIsEnumerable'', ''toLocaleString'', ''toString'', ''valueOf'',
               ''__defineGetter__'', ''__defineSetter__'', ''__lookupGetter__'',
               ''__lookupSetter__''])"

definition is_digit :: "char \<Rightarrow> bool" where
  "is_digit c = (48 \<le> (of_char c :: nat) \<and> (of_char c :: nat) \<le> 57)"

definition digits_value :: "string \<Rightarrow> nat" where
  "digits_value k = foldl (\<lambda>n c. 10 * n + (of_char c - 48)) 0 k"

text \<open>The value of a key that is an array index: a decimal numeral without a leading
  zero, below \<open>2 ^ 32 - 1\<close>.\<close>

definition array_index :: "string \<Rightarrow> nat option" where
  "array_index k =
     (if k = [] then None
      else if list_all is_digit k \<and> (if hd k = CHR ''0'' then k = ''0'' else True)
              \<and> digits_value k < 2 ^ 32 - 1
      then Some (digits_value k) else None)"

fun insert_key ::
  "string \<Rightarrow> endpoint_group \<Rightarrow> (string \<times> endpoint_group) list \<Rightarrow> (string \<times> endpoint_group) list" where
  "insert_key k g [] = [(k, g)]"
| "insert_key k g ((k', g') # rest) =
     (case array_index k of
        None \<Rightarrow> (k', g') # insert_key k g rest
      | Some i \<Rightarrow>
          (case array_index k' of
             None \<Rightarrow> (k, g) # (k', g') # rest
           | Some j \<Rightarrow> if i < j then (k, g) # (k', g') # rest
                       else (k', g') # insert_key k g rest))"

definition group_step ::
  "(string \<times> endpoint_group) list \<Rightarrow> transaction \<Rightarrow> (string \<times> endpoint_group) list" where
  "group_step grouped t =
     (if inherited (endpoint t) then grouped
      else (let g1 = (if map_of grouped (endpoint t) = None
                      then insert_key (endpoint t) \<lparr> count = 0, totalCost = lit 0 \<rparr> grouped
                      else grouped)
            in map (\<lambda>(k, g). if k = endpoint t
                              then (k, \<lparr> count = count g + 1,
                                         totalCost = js_add (totalCost g) (amount t) \<rparr>)
                              else (k, g)) g1))"

definition groupByEndpoint :: "agent \<Rightarrow> (string \<times> endpoint_group) list" where
  "groupByEndpoint a =
     foldl group_step [] (filter (\<lambda>t. status t = Success) (transactions a))"

record budget_report =
  max_budget :: jsnum
  spent :: jsnum
  remaining :: jsnum
  utilization :: jsnum

record transactions_report =
  total :: nat
  successful :: nat
  failed :: nat
  successRate :: jsnum

record report =
  agent_name :: string
  wallet_address :: string
  period :: string
  budget :: budget_report
  transactions_summary :: transactions_report
  endpoints :: "(string \<times> endpoint_group) list"
  timestamp :: nat

text \<open>\<open>getSpendingReport\<close>, with the reading of the clock (\<open>new Date()\<close>) as \<open>now\<close>. The
  length of an array is a number with the value of the length.\<close>

definition getSpendingReport :: "agent \<Rightarrow> nat \<Rightarrow> report" where
  "getSpendingReport a now =
     (let succ = filter (\<lambda>t. status t = Success) (transactions a);
          fl = filter (\<lambda>t. status t = Failed) (transactions a)
      in \<lparr> agent_name = name a,
           wallet_address = wallet a,
           period = ''today'',
           budget = \<lparr> max_budget = maxDailySpend a,
                      spent = spendingToday a,
                      remaining = js_sub (maxDailySpend a) (spendingToday a),
                      utilization =
                        toFixed1 (js_mul (js_div (spendingToday a) (maxDailySpend a))
                                         (lit 100)) \<rparr>,
           transactions_summary =
                    \<lparr> total = length (transactions a),
                      successful = length succ,
                      failed = length fl,
                      successRate =
                        toFixed1 (js_mul (js_div (Fin (real (length succ)))
                                                 (Fin (real (length (transactions a)))))
                                         (lit 100)) \<rparr>,
           endpoints = groupByEndpoint a,
           timestamp = now \<rparr>)"

section \<open>Observations, reachable states and scenarios\<close>

subsection \<open>What the ledger says\<close>

text \<open>The sum of the amounts of the successful entries of a ledger, added one by one
  from 0 in the order of the ledger, as the agent adds them.\<close>

definition ledger_sum :: "transaction list \<Rightarrow> jsnum" where
  "ledger_sum ts = foldl js_add (Fin 0) (map amount (filter (\<lambda>t. status t = Success) ts))"

text \<open>What a ledger holds for one endpoint: nothing when the endpoint has no successful
  entry or has the name of an inherited member; otherwise the number of its successful
  entries and the sum of their amounts, added one by one from 0 in the order of the
  ledger.\<close>

definition tally :: "transaction list \<Rightarrow> string \<Rightarrow> endpoint_group option" where
  "tally ts ep =
     (let s = filter (\<lambda>t. status t = Success \<and> endpoint t = ep) ts
      in if inherited ep \<or> s = [] then None
         else Some \<lparr> count = length s, totalCost = foldl js_add (Fin 0) (map amount s) \<rparr>)"

text \<open>The endpoints of the entries a workflow added to the ledger, in order.\<close>

definition new_calls :: "agent \<Rightarrow> agent \<Rightarrow> string list" where
  "new_calls a a' = map endpoint (drop (length (transactions a)) (transactions a'))"

text \<open>The decision a workflow returned, if it returned.\<close>

definition decided :: "failure + result \<Rightarrow> decision option" where
  "decided r = (case r of Inl err \<Rightarrow> None | Inr res \<Rightarrow> Some (decision res))"

text \<open>The total costs of the groups added up: as the program would add them, one by one
  from 0 in the order of the groups, and exactly.\<close>

definition group_total :: "(string \<times> endpoint_group) list \<Rightarrow> jsnum" where
  "group_total grouped = foldl js_add (Fin 0) (map (\<lambda>(k, g). totalCost g) grouped)"

definition value_of :: "jsnum \<Rightarrow> real" where
  "value_of x = (case x of Fin r \<Rightarrow> r | other \<Rightarrow> 0)"

definition exact_total :: "(string \<times> endpoint_group) list \<Rightarrow> real" where
  "exact_total grouped = sum_list (map (\<lambda>(k, g). value_of (totalCost g)) grouped)"

subsection \<open>Sequences of operations\<close>

text \<open>What \<open>executePayment\<close> does to the agent depends on whether the client returns or
  throws, and not on the body returned; \<open>erase\<close> forgets the body.\<close>

definition erase :: "'r outcome \<Rightarrow> unit outcome" where
  "erase x = (case x of Response rid body \<Rightarrow> Response rid () | Failure msg \<Rightarrow> Failure msg)"

text \<open>\<open>paid a0 a\<close>: the agent gets from \<open>a0\<close> to \<open>a\<close> by calls of \<open>executePayment\<close> alone,
  with any endpoint, amount, method and behaviour of the client.\<close>

inductive paid :: "agent \<Rightarrow> agent \<Rightarrow> bool" for a0 where
  paid_start: "paid a0 a0"
| paid_call: "paid a0 a \<Longrightarrow>
    paid a0 (snd (executePayment (client :: nat \<Rightarrow> unit outcome) ep amt method a))"

text \<open>\<open>reachable a0 a\<close>: the agent gets from \<open>a0\<close> to \<open>a\<close> by a sequence of paid calls and
  workflows, in any order and against any environment. \<open>researchTopic\<close> is a single paid
  call of 0.01 and comes under the rule for a paid call.\<close>

inductive reachable :: "agent \<Rightarrow> agent \<Rightarrow> bool" for a0 where
  start: "reachable a0 a0"
| call: "reachable a0 a \<Longrightarrow>
    reachable a0 (snd (executePayment (client :: nat \<Rightarrow> unit outcome) ep amt method a))"
| deep: "reachable a0 a \<Longrightarrow> reachable a0 (snd (analyzeMarketAndDecide e symb a))"
| smart: "reachable a0 a \<Longrightarrow> reachable a0 (snd (smartAnalysis e symb a))"
| batch: "reachable a0 a \<Longrightarrow> reachable a0 (snd (analyzeBatch e symbols a))"

text \<open>The counter agrees with the ledger.\<close>

definition spent_is_ledger_sum :: "agent \<Rightarrow> bool" where
  "spent_is_ledger_sum a = (spendingToday a = ledger_sum (transactions a))"

subsection \<open>Scenarios\<close>

definition alpha :: agent where
  "alpha = TradingAgent (Some ''AlphaTrader-001'') ''0xA1'' (Some (lit 5))"

definition beta :: agent where
  "beta = TradingAgent (Some ''AlphaTrader-001'') ''0xA1'' (Some (lit 0.149))"

definition gamma :: agent where
  "gamma = TradingAgent (Some ''AlphaTrader-001'') ''0xA1'' (Some (lit 0.11))"

definition signal :: "jsnum \<Rightarrow> market_data" where
  "signal s = \<lparr> price = lit 100, trend = ''bullish'', strength = s, volatility = lit 0.2,
                volume = lit 1000 \<rparr>"

text \<open>An environment where every call succeeds: the market signal has strength \<open>s\<close> and a
  bullish trend, the sentiment is \<open>label\<close>, the prediction has the change \<open>chg\<close> and the
  confidence \<open>conf\<close>.\<close>

definition env_signal :: "jsnum \<Rightarrow> string \<Rightarrow> jsnum \<Rightarrow> jsnum \<Rightarrow> env" where
  "env_signal s label chg conf =
     \<lparr> market_api = (\<lambda>n. Response None (signal s)),
       sentiment_api = (\<lambda>n. Response None \<lparr> sentiment = label, score = lit 0.4 \<rparr>),
       prediction_api = (\<lambda>n. Response None
          \<lparr> currentPrice = lit 100, predictedPrice = js_add (lit 100) chg, change = chg,
            meta_confidence = conf \<rparr>) \<rparr>"

text \<open>An environment for a batch of three symbols: strong signals and a full analysis for
  the first symbol; for the second, the market call of the batch succeeds and the market
  call of the deep analysis (the sixth call in all) fails; the third has a weak signal.\<close>

definition env_batch :: env where
  "env_batch =
     \<lparr> market_api = (\<lambda>n. if n = 5 then Failure ''ECONNRESET''
                          else if n = 6 then Response None (signal (lit 0.3))
                          else Response None (signal (lit 0.9))),
       sentiment_api = (\<lambda>n. Response None \<lparr> sentiment = ''positive'', score = lit 0.9 \<rparr>),
       prediction_api = (\<lambda>n. Response None
          \<lparr> currentPrice = lit 100, predictedPrice = lit 101, change = lit 1,
            meta_confidence = lit 0.5 \<rparr>) \<rparr>"

text \<open>An environment for two smart analyses in a row: a signal of strength 0.6 and a
  sentiment that does not confirm it, then (the third call in all) a signal of strength
  0.3.\<close>

definition env_twice :: env where
  "env_twice =
     \<lparr> market_api = (\<lambda>n. if n = 2 then Response None (signal (lit 0.3))
                          else Response None (signal (lit 0.6))),
       sentiment_api = (\<lambda>n. Response None \<lparr> sentiment = ''negative'', score = lit 0.4 \<rparr>),
       prediction_api = (\<lambda>n. Failure ''not called'') \<rparr>"

definition after_twice :: agent where
  "after_twice = snd (smartAnalysis env_twice ''BNB'' (snd (smartAnalysis env_twice ''BNB'' alpha)))"

text \<open>A client that always answers, and two paid calls of 0.04 and 0.07 made with it by
  an agent whose cap is 0.11.\<close>

definition always_ok :: "nat \<Rightarrow> unit outcome" where
  "always_ok n = Response None ()"

definition after_first_call :: agent where
  "after_first_call =
     snd (executePayment always_ok ''/api/v1/data/research-papers'' (lit 0.04) ''GET'' gamma)"

definition after_second_call :: agent where
  "after_second_call =
     snd (executePayment always_ok ''/api/v1/data/research-papers'' (lit 0.07) ''GET''
            after_first_call)"

lemmas scenario_defs = alpha_def beta_def gamma_def TradingAgent_def signal_def env_signal_def
  env_batch_def env_twice_def always_ok_def

lemmas js_eval = lit_def round64_def scale_up.simps scale_down.simps half_even_def pow2_def
  js_sub_def js_gt_def js_ge_def signed_inf_def Let_def

section \<open>Properties\<close>

subsection \<open>Arithmetic of the scenarios\<close>

text \<open>The comparisons are consistent.\<close>

lemma js_less_not_ge: "js_less x y \<Longrightarrow> \<not> js_ge x y"
  by (cases x; cases y) (simp_all add: js_ge_def)

text \<open>A rule without premises for \<open>lit\<close>, used as a congruence rule, keeps a literal as it
  is written, so that the facts below apply to it.\<close>

lemma lit_cong: "lit q = lit q"
  by (rule refl)

lemma lit_zero: "lit 0 = Fin 0"
  by (simp add: lit_def round64_def)

lemma lit_tenth: "lit 0.10 = lit 0.1"
  by (simp add: lit_def)

text \<open>The sums, differences, products and comparisons of binary64 values that the
  scenarios meet, each computed by rounding as \<open>round64\<close> defines it.\<close>

lemma arith_1:
  "js_sub (lit 5) (Fin 0) = (lit 5)"
  "js_less (lit 5) (lit 6)"
  "\<not> js_ge (lit 5) (lit 6)"
  "js_ge (lit 5) (lit 0.02)"
  by (simp_all add: js_eval)

lemma arith_2:
  "js_ge (lit 5) (lit 0.005)"
  "js_add (Fin 0) (lit 0.005) = (lit 0.005)"
  "js_gt (lit 0.9) (lit 0.7)"
  "js_sub (lit 5) (lit 0.005) = (lit 4.995)"
  by (simp_all add: js_eval)

lemma arith_3:
  "js_ge (lit 4.995) (lit 0.02)"
  "js_add (lit 0.005) (lit 0.02) = (lit 0.025)"
  "js_less (lit 0.005) (lit 0.025)"
  "\<not> js_less (lit 0.9) (lit 0.5)"
  by (simp_all add: js_eval)

lemma arith_4:
  "\<not> js_less (lit 0.9) (lit 0.8)"
  "js_ge (lit 4.995) (lit 0.1)"
  "js_add (lit 0.005) (lit 0.1) = (lit 0.10500000000000001)"
  "js_gt (lit 6) (lit 5)"
  by (simp_all add: js_eval)

lemma arith_5:
  "js_gt (lit 0.8) (lit 0.7)"
  "js_sub (lit 0.149) (Fin 0) = (lit 0.149)"
  "js_ge (lit 0.149) (lit 0.005)"
  "js_gt (lit 0.9) (lit 0.8)"
  by (simp_all add: js_eval)

lemma arith_6:
  "js_sub (lit 0.149) (lit 0.005) = (lit 0.144)"
  "js_ge (lit 0.144) (lit 0.005)"
  "js_add (lit 0.005) (lit 0.005) = (lit 0.01)"
  "js_sub (lit 0.149) (lit 0.01) = (lit 0.13899999999999998)"
  by (simp_all add: js_eval)

lemma arith_7:
  "js_ge (lit 0.13899999999999998) (lit 0.02)"
  "js_add (lit 0.01) (lit 0.02) = (lit 0.03)"
  "js_sub (lit 0.149) (lit 0.03) = (lit 0.119)"
  "js_ge (lit 0.119) (lit 0.1)"
  by (simp_all add: js_eval)

lemma arith_8:
  "js_add (lit 0.03) (lit 0.1) = (lit 0.13)"
  "\<not> js_gt (lit 1) (lit 5)"
  "\<not> js_less (lit 1) (js_neg (lit 5))"
  "js_add (lit 0.025) (lit 0.1) = (lit 0.125)"
  by (simp_all add: js_eval)

lemma arith_9:
  "js_mul (lit 0.149) (lit 0.9) = (lit 0.1341)"
  "\<not> js_ge (lit 0.13) (lit 0.1341)"
  "js_sub (lit 0.149) (lit 0.13) = (lit 0.01899999999999999)"
  "js_ge (lit 0.01899999999999999) (lit 0.005)"
  by (simp_all add: js_eval)

lemma arith_10:
  "js_add (lit 0.13) (lit 0.005) = (lit 0.135)"
  "js_sub (lit 0.149) (lit 0.135) = (lit 0.013999999999999985)"
  "js_ge (lit 0.013999999999999985) (lit 0.005)"
  "js_ge (lit 0.135) (lit 0.1341)"
  by (simp_all add: js_eval)

lemma arith_11:
  "js_add (lit 0.135) (lit 0.005) = (lit 0.14)"
  "\<not> js_gt (lit 0.3) (lit 0.8)"
  "js_ge (lit 0.14) (lit 0.1341)"
  "js_sub (lit 0.11) (Fin 0) = (lit 0.11)"
  by (simp_all add: js_eval)

lemma arith_12:
  "js_ge (lit 0.11) (lit 0.04)"
  "js_add (Fin 0) (lit 0.04) = (lit 0.04)"
  "js_sub (lit 0.11) (lit 0.04) = (lit 0.07)"
  "js_ge (lit 0.07) (lit 0.07)"
  by (simp_all add: js_eval)

lemma arith_13:
  "js_add (lit 0.04) (lit 0.07) = (lit 0.11000000000000001)"
  "js_less (lit 0.11) (lit 0.11000000000000001)"
  "js_less (lit 0.4999) (lit 0.5)"
  "\<not> js_less (lit 0.5) (lit 0.5)"
  by (simp_all add: js_eval)

lemma arith_14:
  "js_less (lit 0.5) (lit 0.8)"
  "\<not> js_less (lit 0.8) (lit 0.5)"
  "\<not> js_less (lit 0.8) (lit 0.8)"
  "\<not> js_less (lit 0.6) (lit 0.5)"
  by (simp_all add: js_eval)

lemma arith_15:
  "js_less (lit 0.6) (lit 0.8)"
  "js_sub (lit 5) (lit 0.025) = (lit 4.975)"
  "js_ge (lit 4.975) (lit 0.005)"
  "js_add (lit 0.025) (lit 0.005) = (lit 0.030000000000000002)"
  by (simp_all add: js_eval)

lemma arith_16:
  "js_less (lit 0.3) (lit 0.5)"
  "js_add (Fin 0) (lit 0.02) = (lit 0.02)"
  "js_add (Fin 0) (lit 0.01) = (lit 0.01)"
  "(lit 0.03) \<noteq> (lit 0.030000000000000002)"
  by (simp_all add: js_eval)

lemma arith_17:
  "lit 5 \<noteq> Fin 0"
  "lit 5 \<noteq> NaN"
  "lit 0.149 \<noteq> Fin 0"
  "lit 0.149 \<noteq> NaN"
  by (simp_all add: js_eval)

lemma arith_18:
  "lit 0.11 \<noteq> Fin 0"
  "lit 0.11 \<noteq> NaN"
  "value_of (lit 0.01) + value_of (lit 0.02) \<noteq> value_of (lit 0.030000000000000002)"
  by (simp_all add: js_eval value_of_def)

lemmas arith = arith_1 arith_2 arith_3 arith_4 arith_5 arith_6 arith_7 arith_8 arith_9 arith_10 arith_11 arith_12 arith_13 arith_14 arith_15 arith_16 arith_17 arith_18

lemmas run_defs = analyzeBatch_def analyzeMarketAndDecide_def smartAnalysis_def
  executePayment_def canAfford_def makeDecision_def skip_entry_def error_entry_def
  hold_early_def new_calls_def decided_def scenario_defs lit_zero lit_tenth Let_def

subsection \<open>The paid call\<close>

text \<open>Claim C7. A paid call whose cost is greater than the remaining budget
  (\<open>maxDailySpend - spendingToday\<close>, as the program computes it) raises the budget error,
  and the agent is exactly as before: no entry is added to the ledger, \<open>spendingToday\<close> is
  unchanged and the client was not invoked.\<close>

theorem executePayment_refuses_beyond_budget:
  "js_less (js_sub (maxDailySpend a) (spendingToday a)) amt \<Longrightarrow>
   executePayment client ep amt method a =
     (Inl (InsufficientBudget (js_sub (maxDailySpend a) (spendingToday a))), a)"
  by (simp add: executePayment_def canAfford_def js_less_not_ge)

theorem executePayment_refuses_beyond_budget_witness:
  "js_less (js_sub (maxDailySpend alpha) (spendingToday alpha)) (lit 6) \<and>
   executePayment (\<lambda>n. Response None ()) ''/api/v1/data/research-papers'' (lit 6) ''GET'' alpha =
     (Inl (InsufficientBudget (lit 5)), alpha)"
  using executePayment_refuses_beyond_budget
          [of alpha "lit 6" "\<lambda>n. Response None ()" "''/api/v1/data/research-papers''" "''GET''"]
  by (simp add: alpha_def TradingAgent_def arith cong: lit_cong)

text \<open>Claim C8. When the budget allows the call and the client fails with a message,
  \<open>executePayment\<close> adds exactly one entry to the ledger, with status failed and the
  endpoint, the cost and the message; \<open>spendingToday\<close> is unchanged; and the error goes on
  to the caller.\<close>

theorem executePayment_records_transport_failure:
  assumes "canAfford a amt" and "method = ''GET'' \<or> method = ''POST''"
    and "client (invocations a) = Failure msg"
  shows "executePayment client ep amt method a =
           (Inl (TransportError msg),
            a\<lparr> transactions := transactions a @
                  [\<lparr> endpoint = ep, amount = amt, status = Failed,
                     requestId = None, error = Some msg \<rparr>],
               invocations := Suc (invocations a) \<rparr>) \<and>
         spendingToday (snd (executePayment client ep amt method a)) = spendingToday a \<and>
         length (transactions (snd (executePayment client ep amt method a))) =
           Suc (length (transactions a))"
  using assms by (auto simp add: executePayment_def)

theorem executePayment_records_transport_failure_witness:
  "canAfford alpha (lit 0.02) \<and>
   executePayment (\<lambda>n. Failure ''timeout'' :: sentiment_data outcome)
       sentiment_url (lit 0.02) ''POST'' alpha =
     (Inl (TransportError ''timeout''),
      alpha\<lparr> transactions :=
               [\<lparr> endpoint = sentiment_url, amount = lit 0.02, status = Failed,
                  requestId = None, error = Some ''timeout'' \<rparr>],
             invocations := 1 \<rparr>) \<and>
   spendingToday (snd (executePayment (\<lambda>n. Failure ''timeout'' :: sentiment_data outcome)
       sentiment_url (lit 0.02) ''POST'' alpha)) = Fin 0"
proof -
  have c: "canAfford alpha (lit 0.02)"
    by (simp add: canAfford_def alpha_def TradingAgent_def arith Let_def cong: lit_cong)
  have t: "transactions alpha = []" "invocations alpha = 0" "spendingToday alpha = Fin 0"
    by (simp_all add: alpha_def TradingAgent_def)
  show ?thesis
    using c t executePayment_records_transport_failure
          [of alpha "lit 0.02" "''POST''" "\<lambda>n. Failure ''timeout'' :: sentiment_data outcome"
              "''timeout''" sentiment_url]
    by simp
qed

subsection \<open>The spending report\<close>

text \<open>Claim C4. With no transaction in the ledger the success rate of the report should
  be 0. The source divides the number of successful entries by the number of entries
  without a guard: on the agent just constructed the quotient 0 / 0 is \<open>NaN\<close>, and the
  report shows \<open>NaN\<close> and not 0.\<close>

theorem empty_ledger_success_rate_is_NaN:
  "transactions alpha = [] \<and>
   successRate (transactions_summary (getSpendingReport alpha 0)) = NaN \<and>
   successRate (transactions_summary (getSpendingReport alpha 0)) \<noteq> Fin 0"
  by (simp add: getSpendingReport_def alpha_def TradingAgent_def signed_inf_def toFixed1_def)

text \<open>Claim C5, as stated: two reports of the same agent are identical. The report
  carries the time at which it was made, so two reports made at different times
  differ.\<close>

theorem reports_at_different_times_differ:
  "getSpendingReport alpha 0 \<noteq> getSpendingReport alpha 1"
  by (simp add: getSpendingReport_def Let_def)

text \<open>Claim C5, amended. Two reports of the same agent agree on every field other than
  the timestamp: the report is a function of the agent (its name, wallet, cap, counter
  and ledger) and of the time at which it is made.\<close>

theorem reports_agree_up_to_timestamp:
  "getSpendingReport a t1 = (getSpendingReport a t2)\<lparr> timestamp := t1 \<rparr>"
  by (simp add: getSpendingReport_def Let_def)

text \<open>Claim C2. After any sequence of paid calls the amount spent should be within the
  cap. With a cap of 0.11, a call of 0.04 and a call of 0.07 both pass the gate: the
  remainder 0.11 - 0.04 is computed as 0.07, which covers the second call. Both are
  charged, and the sum 0.04 + 0.07 is computed as 0.11000000000000001, which is above
  the cap.\<close>

theorem budget_exceeded_after_accepted_calls:
  "spendingToday gamma = Fin 0 \<and> maxDailySpend gamma = lit 0.11 \<and>
   canAfford gamma (lit 0.04) \<and> canAfford after_first_call (lit 0.07) \<and>
   reachable gamma after_second_call \<and>
   map status (transactions after_second_call) = [Success, Success] \<and>
   map amount (transactions after_second_call) = [lit 0.04, lit 0.07] \<and>
   maxDailySpend after_second_call = lit 0.11 \<and>
   spendingToday after_second_call = lit 0.11000000000000001 \<and>
   js_less (maxDailySpend after_second_call) (spendingToday after_second_call)"
proof -
  have g: "spendingToday gamma = Fin 0" "maxDailySpend gamma = lit 0.11"
    by (simp_all add: gamma_def TradingAgent_def arith cong: lit_cong)
  have a1: "after_first_call =
      gamma\<lparr> transactions :=
               [\<lparr> endpoint = ''/api/v1/data/research-papers'', amount = lit 0.04,
                  status = Success, requestId = None, error = None \<rparr>],
             spendingToday := lit 0.04, invocations := 1 \<rparr>"
    by (simp add: after_first_call_def run_defs arith cong: lit_cong)
  have c1: "canAfford gamma (lit 0.04)"
    by (simp add: run_defs arith cong: lit_cong)
  have c2: "canAfford after_first_call (lit 0.07)"
    by (simp add: a1 run_defs arith cong: lit_cong)
  have a2: "after_second_call =
      gamma\<lparr> transactions :=
               [\<lparr> endpoint = ''/api/v1/data/research-papers'', amount = lit 0.04,
                  status = Success, requestId = None, error = None \<rparr>,
                \<lparr> endpoint = ''/api/v1/data/research-papers'', amount = lit 0.07,
                  status = Success, requestId = None, error = None \<rparr>],
             spendingToday := lit 0.11000000000000001, invocations := 2 \<rparr>"
    by (simp add: after_second_call_def a1 run_defs arith cong: lit_cong)
  have r: "reachable gamma after_second_call"
    unfolding after_second_call_def after_first_call_def
    by (intro reachable.call reachable.start)
  show ?thesis
    using g c1 c2 r by (simp add: a2 arith cong: lit_cong)
qed

subsection \<open>Every workflow is a sequence of paid calls\<close>

lemma executePayment_erase:
  "snd (executePayment client ep amt method a) =
   snd (executePayment (\<lambda>n. erase (client n)) ep amt method a)"
  by (simp add: executePayment_def erase_def split: outcome.splits)

lemma paid_exec:
  assumes "executePayment client ep amt method b = (r, b')" and "paid a b"
  shows "paid a b'"
proof -
  have "b' = snd (executePayment (\<lambda>n. erase (client n)) ep amt method b)"
    using assms(1) executePayment_erase [of client ep amt "method" b] by simp
  then show ?thesis using assms(2) by (simp add: paid_call)
qed

lemma paid_deep: "paid a b \<Longrightarrow> paid a (snd (analyzeMarketAndDecide e symb b))"
  unfolding analyzeMarketAndDecide_def
  by (auto split: prod.splits sum.splits dest: paid_exec)

lemma paid_smart: "paid a b \<Longrightarrow> paid a (snd (smartAnalysis e symb b))"
  unfolding smartAnalysis_def Let_def
  by (auto split: prod.splits sum.splits dest: paid_exec)

lemma paid_batch_loop: "paid a b \<Longrightarrow> paid a (snd (batch_loop e symbols results b))"
proof (induction symbols arbitrary: results b)
  case Nil
  then show ?case by simp
next
  case (Cons s rest)
  show ?case
  proof (cases "executePayment (market_api e) (market_url s) (lit 0.005) ''GET'' b")
    case (Pair r b1)
    have p1: "paid a b1" using Pair Cons.prems by (rule paid_exec)
    show ?thesis
    proof (cases r)
      case (Inl err)
      then show ?thesis using Pair p1 Cons.IH by simp
    next
      case (Inr m)
      have p2: "paid a (snd (analyzeMarketAndDecide e s b1))" using p1 by (rule paid_deep)
      show ?thesis using Pair Inr p1 p2 Cons.IH
        by (auto split: prod.splits sum.splits)
    qed
  qed
qed

lemma reachable_paid: "reachable a0 a \<Longrightarrow> paid a0 a"
  by (induction rule: reachable.induct)
     (auto intro: paid.intros paid_deep paid_smart paid_batch_loop simp: analyzeBatch_def)

lemma reachable_executePayment:
  "reachable a0 a \<Longrightarrow> reachable a0 (snd (executePayment client ep amt method a))"
  using executePayment_erase [of client ep amt "method" a] by (simp add: reachable.call)

subsection \<open>The counter and the ledger\<close>

lemma executePayment_ledger_sum:
  "spent_is_ledger_sum a \<Longrightarrow> spent_is_ledger_sum (snd (executePayment client ep amt method a))"
  by (simp add: executePayment_def spent_is_ledger_sum_def ledger_sum_def split: outcome.splits)

lemma paid_ledger_sum: "paid a0 a \<Longrightarrow> spent_is_ledger_sum a0 \<Longrightarrow> spent_is_ledger_sum a"
  by (induction rule: paid.induct) (simp_all add: executePayment_ledger_sum)

subsection \<open>The groups by endpoint\<close>

lemma map_of_insert_key:
  "map_of l k = None \<Longrightarrow>
   map_of (insert_key k g l) x = (if x = k then Some g else map_of l x)"
  by (induction l) (auto split: option.splits if_splits)

lemma keys_insert_key: "fst ` set (insert_key k g l) = insert k (fst ` set l)"
  by (induction k g l rule: insert_key.induct) (auto split: option.splits)

lemma distinct_insert_key:
  "distinct (map fst l) \<Longrightarrow> k \<notin> set (map fst l) \<Longrightarrow> distinct (map fst (insert_key k g l))"
proof (induction l)
  case Nil
  then show ?case by simp
next
  case (Cons p l)
  have "fst p \<notin> fst ` set (insert_key k g l)"
    using Cons.prems by (auto simp add: keys_insert_key)
  then show ?case using Cons by (cases p) (auto split: option.splits)
qed

lemma map_of_bump:
  "map_of (map (\<lambda>(k', g'). if k' = k then (k', f g') else (k', g')) l) x =
   (if x = k then map_option f (map_of l x) else map_of l x)"
  by (induction l) auto

lemma keys_bump:
  "map (fst \<circ> (\<lambda>(k', g'). if k' = k then (k', f g') else (k', g'))) l = map fst l"
  by (induction l) auto

lemma map_of_group_step:
  "map_of (group_step grouped t) x =
   (if inherited (endpoint t) \<or> x \<noteq> endpoint t then map_of grouped x
    else Some (case map_of grouped x of
           None \<Rightarrow> \<lparr> count = 1, totalCost = js_add (Fin 0) (amount t) \<rparr>
         | Some g \<Rightarrow> \<lparr> count = count g + 1, totalCost = js_add (totalCost g) (amount t) \<rparr>))"
proof (cases "inherited (endpoint t)")
  case True
  then show ?thesis by (simp add: group_step_def)
next
  case False
  show ?thesis
  proof (cases "map_of grouped (endpoint t)")
    case None
    then show ?thesis
      using False map_of_insert_key [OF None]
      by (simp add: group_step_def map_of_bump lit_zero)
  next
    case (Some g)
    then show ?thesis
      using False by (simp add: group_step_def map_of_bump)
  qed
qed

lemma distinct_group_step:
  assumes "distinct (map fst grouped)"
  shows "distinct (map fst (group_step grouped t))"
proof (cases "map_of grouped (endpoint t)")
  case None
  have "endpoint t \<notin> set (map fst grouped)"
    using None by (simp add: map_of_eq_None_iff)
  then have "distinct (map fst (insert_key (endpoint t) g grouped))" for g
    using assms by (rule distinct_insert_key [rotated])
  then show ?thesis
    using assms None by (simp add: group_step_def keys_bump)
next
  case (Some g)
  then show ?thesis using assms by (simp add: group_step_def keys_bump)
qed

lemma tally_snoc:
  assumes "status t = Success"
  shows "tally (ts @ [t]) x =
     (if inherited (endpoint t) \<or> x \<noteq> endpoint t then tally ts x
      else Some (case tally ts x of
             None \<Rightarrow> \<lparr> count = 1, totalCost = js_add (Fin 0) (amount t) \<rparr>
           | Some g \<Rightarrow> \<lparr> count = count g + 1, totalCost = js_add (totalCost g) (amount t) \<rparr>))"
  using assms by (auto simp add: tally_def Let_def)

lemma tally_failed: "status t \<noteq> Success \<Longrightarrow> tally (ts @ [t]) x = tally ts x"
  by (simp add: tally_def)

lemma foldl_group_step:
  "map_of (foldl group_step [] (filter (\<lambda>t. status t = Success) ts)) x = tally ts x \<and>
   distinct (map fst (foldl group_step [] (filter (\<lambda>t. status t = Success) ts)))"
proof (induction ts arbitrary: x rule: rev_induct)
  case Nil
  show ?case by (simp add: tally_def)
next
  case (snoc t ts)
  show ?case
  proof (cases "status t = Success")
    case True
    have m: "map_of (foldl group_step [] (filter (\<lambda>t. status t = Success) ts)) y = tally ts y"
      for y
      using snoc by simp
    have d: "distinct (map fst (foldl group_step [] (filter (\<lambda>t. status t = Success) ts)))"
      using snoc by simp
    show ?thesis
      using True d by (simp add: map_of_group_step tally_snoc distinct_group_step m)
  next
    case False
    then show ?thesis using snoc [of x] by (simp add: tally_failed)
  qed
qed

text \<open>Claim C10, as stated: the total costs of the groups add up to \<open>spendingToday\<close>. After
  two smart analyses of one symbol, the first with a signal of strength 0.6 and a
  sentiment that does not confirm it, the second with a signal of strength 0.3, the
  ledger has the successful amounts 0.005, 0.02 and 0.005. The counter holds
  (0.005 + 0.02) + 0.005, computed as 0.030000000000000002; the groups hold
  0.005 + 0.005, computed as 0.01, and 0.02. Their totals do not add up to the counter,
  neither as the program would add them nor exactly.\<close>

theorem endpoint_totals_differ_from_spend:
  "reachable alpha after_twice \<and>
   map amount (transactions after_twice) = [lit 0.005, lit 0.02, lit 0.005] \<and>
   map status (transactions after_twice) = [Success, Success, Success] \<and>
   spendingToday after_twice = lit 0.030000000000000002 \<and>
   groupByEndpoint after_twice =
     [(market_url ''BNB'', \<lparr> count = 2, totalCost = lit 0.01 \<rparr>),
      (sentiment_url, \<lparr> count = 1, totalCost = lit 0.02 \<rparr>)] \<and>
   group_total (groupByEndpoint after_twice) \<noteq> spendingToday after_twice \<and>
   exact_total (groupByEndpoint after_twice) \<noteq> value_of (spendingToday after_twice)"
proof -
  have r: "reachable alpha after_twice"
    unfolding after_twice_def by (intro reachable.smart reachable.start)
  have a1: "snd (smartAnalysis env_twice ''BNB'' alpha) =
      alpha\<lparr> transactions :=
               [\<lparr> endpoint = market_url ''BNB'', amount = lit 0.005, status = Success,
                  requestId = None, error = None \<rparr>,
                \<lparr> endpoint = sentiment_url, amount = lit 0.02, status = Success,
                  requestId = None, error = None \<rparr>],
             spendingToday := lit 0.025, invocations := 2 \<rparr>"
    by (simp add: run_defs arith cong: lit_cong)
  have a2: "after_twice =
      alpha\<lparr> transactions :=
               [\<lparr> endpoint = market_url ''BNB'', amount = lit 0.005, status = Success,
                  requestId = None, error = None \<rparr>,
                \<lparr> endpoint = sentiment_url, amount = lit 0.02, status = Success,
                  requestId = None, error = None \<rparr>,
                \<lparr> endpoint = market_url ''BNB'', amount = lit 0.005, status = Success,
                  requestId = None, error = None \<rparr>],
             spendingToday := lit 0.030000000000000002, invocations := 3 \<rparr>"
    unfolding after_twice_def a1
    by (simp add: run_defs arith cong: lit_cong)
  have u: "\<not> inherited (market_url ''BNB'')" "\<not> inherited sentiment_url"
    "market_url ''BNB'' \<noteq> sentiment_url"
    "array_index (market_url ''BNB'') = None" "array_index sentiment_url = None"
    by (simp_all add: inherited_def market_url_def sentiment_url_def array_index_def
        is_digit_def)
  have g: "groupByEndpoint after_twice =
     [(market_url ''BNB'', \<lparr> count = 2, totalCost = lit 0.01 \<rparr>),
      (sentiment_url, \<lparr> count = 1, totalCost = lit 0.02 \<rparr>)]"
    using u by (simp add: a2 groupByEndpoint_def group_step_def lit_zero arith cong: lit_cong)
  have l: "map amount (transactions after_twice) = [lit 0.005, lit 0.02, lit 0.005]"
    "map status (transactions after_twice) = [Success, Success, Success]"
    "spendingToday after_twice = lit 0.030000000000000002"
    by (simp_all add: a2)
  show ?thesis
    using r l by (simp add: g group_total_def exact_total_def arith cong: lit_cong)
qed

text \<open>Claim C10, amended. Start from an agent with nothing spent and an empty ledger.
  After any sequence of paid calls and workflows, \<open>spendingToday\<close> is the sum of the
  amounts of the successful entries of the ledger, added one by one in the order of the
  ledger with the rounding of each addition. \<open>groupByEndpoint\<close> has one group for each
  endpoint that has a successful entry and does not have the name of an inherited
  member, and no other group; the count of the group is the number of the successful
  entries of its endpoint, and its total cost is the sum of their amounts, added
  likewise. The failed entries count in neither.\<close>

theorem endpoint_groups_and_spend_follow_ledger:
  assumes "spendingToday a0 = Fin 0" and "transactions a0 = []" and "reachable a0 a"
  shows "spendingToday a = ledger_sum (transactions a) \<and>
         map_of (groupByEndpoint a) ep = tally (transactions a) ep \<and>
         distinct (map fst (groupByEndpoint a))"
proof -
  have "paid a0 a" using assms(3) by (rule reachable_paid)
  then have "spent_is_ledger_sum a"
    using paid_ledger_sum assms(1,2) by (simp add: spent_is_ledger_sum_def ledger_sum_def)
  then show ?thesis
    using foldl_group_step [of "transactions a" ep]
    by (simp add: groupByEndpoint_def spent_is_ledger_sum_def)
qed

theorem endpoint_groups_and_spend_follow_ledger_witness:
  "spendingToday alpha = Fin 0 \<and> transactions alpha = [] \<and> reachable alpha after_twice \<and>
   spendingToday after_twice = ledger_sum (transactions after_twice) \<and>
   map_of (groupByEndpoint after_twice) (market_url ''BNB'') =
     tally (transactions after_twice) (market_url ''BNB'') \<and>
   map_of (groupByEndpoint after_twice) ''constructor'' = None \<and>
   distinct (map fst (groupByEndpoint after_twice))"
proof -
  have h: "spendingToday alpha = Fin 0" "transactions alpha = []"
    by (simp_all add: alpha_def TradingAgent_def)
  have r: "reachable alpha after_twice"
    unfolding after_twice_def by (intro reachable.smart reachable.start)
  have i: "tally ts ''constructor'' = None" for ts
    by (simp add: tally_def inherited_def)
  show ?thesis
    using h r i
      endpoint_groups_and_spend_follow_ledger [OF h r, of "market_url ''BNB''"]
      endpoint_groups_and_spend_follow_ledger [OF h r, of "''constructor''"]
    by simp
qed

subsection \<open>The workflows\<close>

text \<open>Claim C1. When deep analysis ends early with HOLD, the \<open>totalSpent\<close> it reports
  should be the cost of the tiers it ran. With a signal of strength 0.9, a bullish trend
  and a negative sentiment, the market and the sentiment tiers both run and are charged
  (0.005 + 0.02, computed as 0.025), and the result reports 0.005.\<close>

theorem deep_analysis_hold_reports_first_tier_only:
  "fst (analyzeMarketAndDecide (env_signal (lit 0.9) ''negative'' (lit 6) (lit 0.8)) ''BTC'' alpha) =
     Inr (hold_early ''BTC'') \<and>
   totalSpent (hold_early ''BTC'') = Some (lit 0.005) \<and>
   new_calls alpha
     (snd (analyzeMarketAndDecide (env_signal (lit 0.9) ''negative'' (lit 6) (lit 0.8)) ''BTC'' alpha)) =
     [market_url ''BTC'', sentiment_url] \<and>
   spendingToday
     (snd (analyzeMarketAndDecide (env_signal (lit 0.9) ''negative'' (lit 6) (lit 0.8)) ''BTC'' alpha)) =
     js_add (lit 0.005) (lit 0.02) \<and>
   js_less (lit 0.005)
     (spendingToday
       (snd (analyzeMarketAndDecide (env_signal (lit 0.9) ''negative'' (lit 6) (lit 0.8)) ''BTC''
              alpha)))"
  by (simp add: run_defs arith cong: lit_cong)

text \<open>Claim C3. With a signal of strength at least 0.8, smart analysis should end with a
  decision for every prediction. With a signal of strength 0.9 and a prediction of change
  6 and confidence 0.8, smart analysis pays for the market and the prediction tiers
  (0.005 + 0.10, two entries in the ledger), and \<open>makeDecision\<close>, which is given \<open>null\<close>
  for the sentiment, throws: no decision is returned.\<close>

theorem smart_analysis_strong_signal_throws:
  "fst (smartAnalysis (env_signal (lit 0.9) ''positive'' (lit 6) (lit 0.8)) ''BNB'' alpha) =
     Inl (TypeError ''sentiment is null'') \<and>
   decided (fst (smartAnalysis (env_signal (lit 0.9) ''positive'' (lit 6) (lit 0.8)) ''BNB'' alpha)) =
     None \<and>
   new_calls alpha
     (snd (smartAnalysis (env_signal (lit 0.9) ''positive'' (lit 6) (lit 0.8)) ''BNB'' alpha)) =
     [market_url ''BNB'', prediction_url] \<and>
   spendingToday
     (snd (smartAnalysis (env_signal (lit 0.9) ''positive'' (lit 6) (lit 0.8)) ''BNB'' alpha)) =
     js_add (lit 0.005) (lit 0.10)"
  by (simp add: run_defs arith cong: lit_cong)

text \<open>Claim C6. After every symbol of a batch, also one that ended as an ERROR entry,
  the batch should stop once \<open>spendingToday\<close> has reached nine tenths of the cap. With a cap
  of 0.149, the first symbol costs 0.13; the second pays 0.005 and then fails, which
  leaves 0.135 spent, above nine tenths of the cap (0.1341), and an ERROR entry; the
  third symbol is processed all the same, and pays 0.005 more.\<close>

theorem batch_goes_on_after_error_above_threshold:
  "map decision (fst (analyzeBatch env_batch [''ETH'', ''SOL''] beta)) = [HOLD, ERROR] \<and>
   spendingToday (snd (analyzeBatch env_batch [''ETH'', ''SOL''] beta)) = lit 0.135 \<and>
   js_ge (spendingToday (snd (analyzeBatch env_batch [''ETH'', ''SOL''] beta)))
     (js_mul (maxDailySpend (snd (analyzeBatch env_batch [''ETH'', ''SOL''] beta))) (lit 0.9)) \<and>
   map decision (fst (analyzeBatch env_batch [''ETH'', ''SOL'', ''AVAX''] beta)) =
     [HOLD, ERROR, SKIP] \<and>
   spendingToday (snd (analyzeBatch env_batch [''ETH'', ''SOL'', ''AVAX''] beta)) = lit 0.14 \<and>
   invocations (snd (analyzeBatch env_batch [''ETH'', ''SOL'', ''AVAX''] beta)) = 7"
  by (simp add: run_defs arith cong: lit_cong)





end
